theory Spec2Isabelle
  imports Main
begin

section \<open>Python values shared by the three components\<close>

text \<open>
  The exceptions the modelled code can raise by itself: a dictionary subscript on a
  missing key, a list subscript out of range, and an attribute read on \<open>None\<close>.
  A computation that may raise has the type \<open>error + 'a\<close>, with \<open>Inl\<close> the exception.
\<close>

datatype error = KeyError int | IndexError | AttributeError

text \<open>\<open>d[k]\<close> on a Python dict: the value stored under \<open>k\<close>, or \<open>KeyError\<close>.\<close>

definition subscript :: "(int \<rightharpoonup> 'v) \<Rightarrow> int \<Rightarrow> error + 'v" where
  "subscript d k = (case d k of None \<Rightarrow> Inl (KeyError k) | Some v \<Rightarrow> Inr v)"

text \<open>
  Sequencing: the second computation runs on the value of the first, and an exception
  raised by the first propagates unchanged.
\<close>

definition and_then :: "error + 'a \<Rightarrow> ('a \<Rightarrow> error + 'b) \<Rightarrow> error + 'b" where
  "and_then m f = (case m of Inl e \<Rightarrow> Inl e | Inr v \<Rightarrow> f v)"


section \<open>ChatMember._parse (types/user_and_chats/chat_member.py)\<close>

subsection \<open>Wire-level records\<close>

text \<open>
  \<open>raw.base.Peer\<close>: a user, a basic group or a channel, each carrying its bare id.
\<close>

datatype peer = PeerUser int | PeerChat int | PeerChannel int

text \<open>
  Modelled from the spec: \<open>utils.get_raw_peer_id\<close> is not part of the sources at hand.
  The peer reference "may denote either a user or a chat"; the function returns the id
  the reference carries, whatever its kind.
\<close>

fun get_raw_peer_id :: "peer \<Rightarrow> int" where
  "get_raw_peer_id (PeerUser user_id) = user_id"
| "get_raw_peer_id (PeerChat chat_id) = chat_id"
| "get_raw_peer_id (PeerChannel channel_id) = channel_id"

text \<open>\<open>isinstance(peer, raw.types.PeerUser)\<close>.\<close>

fun is_PeerUser :: "peer \<Rightarrow> bool" where
  "is_PeerUser (PeerUser _) = True"
| "is_PeerUser _ = False"

text \<open>
  \<open>raw.types.ChatBannedRights\<close>: the parser reads \<open>view_messages\<close> and \<open>until_date\<close>
  and hands the whole record to \<open>ChatPermissions._parse\<close>; the remaining flags of the
  wire type are kept in \<open>other_rights\<close>, in wire order.
\<close>

record chat_banned_rights =
  view_messages :: bool
  other_rights :: "bool list"
  rights_until_date :: int

text \<open>
  The membership records. The nine variants the parser knows carry the fields it reads,
  in the order of the wire schema; \<open>inviter_id\<close> and \<open>rank\<close> are optional where the
  schema makes them so. Every other object that may reach the parser is an
  \<open>OtherParticipant\<close>, named by its constructor. \<open>'ar\<close> is \<open>raw.types.ChatAdminRights\<close>.
\<close>

datatype 'ar participant =
    ChatParticipant int int int
      \<comment> \<open>\<open>user_id\<close>, \<open>inviter_id\<close>, \<open>date\<close>\<close>
  | ChatParticipantAdmin int int int
      \<comment> \<open>\<open>user_id\<close>, \<open>inviter_id\<close>, \<open>date\<close>\<close>
  | ChatParticipantCreator int
      \<comment> \<open>\<open>user_id\<close>\<close>
  | ChannelParticipant int int
      \<comment> \<open>\<open>user_id\<close>, \<open>date\<close>\<close>
  | ChannelParticipantAdmin bool int "int option" int int 'ar "string option"
      \<comment> \<open>\<open>can_edit\<close>, \<open>user_id\<close>, \<open>inviter_id\<close>, \<open>promoted_by\<close>, \<open>date\<close>, \<open>admin_rights\<close>, \<open>rank\<close>\<close>
  | ChannelParticipantBanned bool peer int int chat_banned_rights
      \<comment> \<open>\<open>left\<close>, \<open>peer\<close>, \<open>kicked_by\<close>, \<open>date\<close>, \<open>banned_rights\<close>\<close>
  | ChannelParticipantCreator int 'ar "string option"
      \<comment> \<open>\<open>user_id\<close>, \<open>admin_rights\<close>, \<open>rank\<close>\<close>
  | ChannelParticipantLeft peer
      \<comment> \<open>\<open>peer\<close>\<close>
  | ChannelParticipantSelf int int int
      \<comment> \<open>\<open>user_id\<close>, \<open>inviter_id\<close>, \<open>date\<close>\<close>
  | OtherParticipant string

subsection \<open>The normalized record\<close>

datatype ChatMemberStatus = OWNER | ADMINISTRATOR | MEMBER | RESTRICTED | BANNED | LEFT

text \<open>
  \<open>ChatMember\<close>. Every field but \<open>status\<close> defaults to \<open>None\<close> in \<open>__init__\<close>; here
  \<open>None\<close> is that default, and \<open>Some v\<close> says the parser passed the value \<open>v\<close> for the
  field. The type variables are the results of the parsers of other modules:
  \<open>'u\<close> of \<open>User._parse\<close>, \<open>'c\<close> of \<open>Chat._parse_chat\<close>, \<open>'d\<close> of
  \<open>utils.timestamp_to_datetime\<close>, \<open>'pm\<close> of \<open>ChatPermissions._parse\<close> and \<open>'pv\<close> of
  \<open>ChatPrivileges._parse\<close>.
\<close>

record ('u, 'c, 'd, 'pm, 'pv) ChatMember =
  status :: ChatMemberStatus
  user :: "'u option"
  chat :: "'c option"
  custom_title :: "string option"
  until_date :: "'d option"
  joined_date :: "'d option"
  invited_by :: "'u option"
  promoted_by :: "'u option"
  restricted_by :: "'u option"
  is_member :: "bool option"
  can_be_edited :: "bool option"
  permissions :: "'pm option"
  privileges :: "'pv option"

text \<open>\<open>ChatMember(status=s)\<close>: the constructor with every keyword left at its default.\<close>

definition ChatMember_init :: "ChatMemberStatus \<Rightarrow> ('u, 'c, 'd, 'pm, 'pv) ChatMember" where
  "ChatMember_init s =
     \<lparr>status = s, user = None, chat = None, custom_title = None, until_date = None,
      joined_date = None, invited_by = None, promoted_by = None, restricted_by = None,
      is_member = None, can_be_edited = None, permissions = None, privileges = None\<rparr>"

text \<open>
  The parsers of other modules that \<open>ChatMember._parse\<close> calls; none of them is part of
  the sources at hand, so they are parameters of the model.
\<close>

record ('ru, 'rc, 'ar, 'u, 'c, 'd, 'pm, 'pv) parsers =
  User_parse :: "'ru \<Rightarrow> 'u"
  Chat_parse_chat :: "'rc \<Rightarrow> 'c"
  timestamp_to_datetime :: "int \<Rightarrow> 'd"
  ChatPermissions_parse :: "chat_banned_rights \<Rightarrow> 'pm"
  ChatPrivileges_parse :: "'ar \<Rightarrow> 'pv"

subsection \<open>The parser\<close>

text \<open>
  The subject of a banned or left record (lines 166-179 and 205-218): the \<open>user\<close> and
  the \<open>chat\<close> keyword, computed from the peer in this order.
\<close>

definition parse_subject ::
  "('ru, 'rc, 'ar, 'u, 'c, 'd, 'pm, 'pv) parsers \<Rightarrow> peer \<Rightarrow> (int \<rightharpoonup> 'ru) \<Rightarrow> (int \<rightharpoonup> 'rc)
    \<Rightarrow> error + ('u option \<times> 'c option)" where
  "parse_subject P peer users chats =
     (let peer_id = get_raw_peer_id peer in
      and_then
        (if is_PeerUser peer
         then and_then (subscript users peer_id) (\<lambda>ru. Inr (Some (User_parse P ru)))
         else Inr None)
        (\<lambda>subject_user.
      and_then
        (if is_PeerUser peer
         then Inr None
         else and_then (subscript chats peer_id) (\<lambda>rc. Inr (Some (Chat_parse_chat P rc))))
        (\<lambda>subject_chat. Inr (subject_user, subject_chat))))"

text \<open>
  \<open>ChatMember._parse(client, member, users, chats)\<close>. The keyword arguments of each
  constructor call are evaluated in the order they are written, so the first missing
  key decides the \<open>KeyError\<close>. The result \<open>Inr None\<close> is the \<open>return None\<close> of line 231.
\<close>

fun ChatMember_parse ::
  "('ru, 'rc, 'ar, 'u, 'c, 'd, 'pm, 'pv) parsers \<Rightarrow> 'ar participant \<Rightarrow> (int \<rightharpoonup> 'ru)
    \<Rightarrow> (int \<rightharpoonup> 'rc) \<Rightarrow> error + ('u, 'c, 'd, 'pm, 'pv) ChatMember option" where
  "ChatMember_parse P (ChatParticipant user_id inviter_id date) users chats =
     and_then (subscript users user_id) (\<lambda>ru.
     and_then (subscript users inviter_id) (\<lambda>ri.
       Inr (Some ((ChatMember_init MEMBER)
         \<lparr>user := Some (User_parse P ru),
          joined_date := Some (timestamp_to_datetime P date),
          invited_by := Some (User_parse P ri)\<rparr>))))"
| "ChatMember_parse P (ChatParticipantAdmin user_id inviter_id date) users chats =
     and_then (subscript users user_id) (\<lambda>ru.
     and_then (subscript users inviter_id) (\<lambda>ri.
       Inr (Some ((ChatMember_init ADMINISTRATOR)
         \<lparr>user := Some (User_parse P ru),
          joined_date := Some (timestamp_to_datetime P date),
          invited_by := Some (User_parse P ri)\<rparr>))))"
| "ChatMember_parse P (ChatParticipantCreator user_id) users chats =
     and_then (subscript users user_id) (\<lambda>ru.
       Inr (Some ((ChatMember_init OWNER)\<lparr>user := Some (User_parse P ru)\<rparr>)))"
| "ChatMember_parse P (ChannelParticipant user_id date) users chats =
     and_then (subscript users user_id) (\<lambda>ru.
       Inr (Some ((ChatMember_init MEMBER)
         \<lparr>user := Some (User_parse P ru),
          joined_date := Some (timestamp_to_datetime P date)\<rparr>)))"
| "ChatMember_parse P
     (ChannelParticipantAdmin can_edit user_id inviter_id promoted date admin_rights rank)
     users chats =
     and_then (subscript users user_id) (\<lambda>ru.
     and_then (subscript users promoted) (\<lambda>rp.
     and_then
       (case inviter_id of
          None \<Rightarrow> Inr None
        | Some i \<Rightarrow>
            if i \<noteq> 0
            then and_then (subscript users i) (\<lambda>ri. Inr (Some (User_parse P ri)))
            else Inr None)
       (\<lambda>inviter.
       Inr (Some ((ChatMember_init ADMINISTRATOR)
         \<lparr>user := Some (User_parse P ru),
          joined_date := Some (timestamp_to_datetime P date),
          promoted_by := Some (User_parse P rp),
          invited_by := inviter,
          custom_title := rank,
          can_be_edited := Some can_edit,
          privileges := Some (ChatPrivileges_parse P admin_rights)\<rparr>)))))"
| "ChatMember_parse P (ChannelParticipantBanned left peer kicked_by date banned_rights)
     users chats =
     and_then (parse_subject P peer users chats) (\<lambda>(subject_user, subject_chat).
     and_then (subscript users kicked_by) (\<lambda>rk.
       Inr (Some ((ChatMember_init
                     (if view_messages banned_rights then BANNED else RESTRICTED))
         \<lparr>user := subject_user,
          chat := subject_chat,
          until_date := Some (timestamp_to_datetime P (rights_until_date banned_rights)),
          joined_date := Some (timestamp_to_datetime P date),
          is_member := Some (\<not> left),
          restricted_by := Some (User_parse P rk),
          permissions := Some (ChatPermissions_parse P banned_rights)\<rparr>))))"
| "ChatMember_parse P (ChannelParticipantCreator user_id admin_rights rank) users chats =
     and_then (subscript users user_id) (\<lambda>ru.
       Inr (Some ((ChatMember_init OWNER)
         \<lparr>user := Some (User_parse P ru),
          custom_title := rank,
          privileges := Some (ChatPrivileges_parse P admin_rights)\<rparr>)))"
| "ChatMember_parse P (ChannelParticipantLeft peer) users chats =
     and_then (parse_subject P peer users chats) (\<lambda>(subject_user, subject_chat).
       Inr (Some ((ChatMember_init LEFT)\<lparr>user := subject_user, chat := subject_chat\<rparr>)))"
| "ChatMember_parse P (ChannelParticipantSelf user_id inviter_id date) users chats =
     and_then (subscript users user_id) (\<lambda>ru.
     and_then (subscript users inviter_id) (\<lambda>ri.
       Inr (Some ((ChatMember_init MEMBER)
         \<lparr>user := Some (User_parse P ru),
          joined_date := Some (timestamp_to_datetime P date),
          invited_by := Some (User_parse P ri)\<rparr>))))"
| "ChatMember_parse P (OtherParticipant name) users chats = Inr None"


section \<open>forward_messages (methods/messages/forward_messages.py)\<close>

text \<open>
  The argument \<open>message_ids\<close>: a single integer, or an iterable of integers given by the
  list that \<open>list(message_ids)\<close> builds from it.
\<close>

datatype message_ids = Scalar int | Iterable "int list"

text \<open>
  \<open>raw.base.Update\<close>, with the raw message \<open>'rm\<close> that the three new-message variants
  embed. Of the other variants of the wire schema two are spelled out; the rest are
  \<open>OtherUpdate\<close>, named by their constructor.
\<close>

datatype 'rm update =
    UpdateNewMessage 'rm
  | UpdateNewChannelMessage 'rm
  | UpdateNewScheduledMessage 'rm
  | UpdateMessageID int int
      \<comment> \<open>\<open>id\<close>, \<open>random_id\<close>\<close>
  | UpdateReadHistoryInbox int
      \<comment> \<open>\<open>max_id\<close>\<close>
  | OtherUpdate string

text \<open>
  The response \<open>r\<close> of the gateway to the request of lines 89-100: its update list and
  the side-loaded users and chats. A failure of \<open>resolve_peer\<close> or of \<open>invoke\<close> leaves
  the function before line 102 and is outside this model.
\<close>

record ('rm, 'ru, 'rc) updates_response =
  r_updates :: "'rm update list"
  r_users :: "'ru list"
  r_chats :: "'rc list"

text \<open>
  What the function takes from other modules: the \<open>id\<close> attribute of a raw user and of
  a raw chat, and \<open>Message._parse\<close>, which may raise (a lookup-table miss, for one).
\<close>

record ('rm, 'ru, 'rc, 'm) message_parsers =
  raw_user_id :: "'ru \<Rightarrow> int"
  raw_chat_id :: "'rc \<Rightarrow> int"
  Message_parse :: "'rm \<Rightarrow> (int \<rightharpoonup> 'ru) \<Rightarrow> (int \<rightharpoonup> 'rc) \<Rightarrow> error + 'm"

text \<open>
  The result: a bare \<open>types.Message\<close>, or a \<open>types.List\<close> of them.
\<close>

datatype 'm forwarded = Single 'm | Many "'m list"

text \<open>\<open>{i.id: i for i in xs}\<close>: a later entry replaces an earlier one with the same id.\<close>

definition dict_by_id :: "('a \<Rightarrow> int) \<Rightarrow> 'a list \<Rightarrow> (int \<rightharpoonup> 'a)" where
  "dict_by_id key xs = foldl (\<lambda>d i. d(key i \<mapsto> i)) Map.empty xs"

text \<open>
  The \<open>isinstance\<close> test of lines 110-117 together with the attribute \<open>i.message\<close>:
  the embedded raw message of an update that passes the test.
\<close>

fun new_message_of :: "'rm update \<Rightarrow> 'rm option" where
  "new_message_of (UpdateNewMessage message) = Some message"
| "new_message_of (UpdateNewChannelMessage message) = Some message"
| "new_message_of (UpdateNewScheduledMessage message) = Some message"
| "new_message_of _ = None"

text \<open>
  The list comprehension of lines 107-118, update by update; the first parse that
  raises ends it.
\<close>

fun parse_new_messages ::
  "('rm, 'ru, 'rc, 'm) message_parsers \<Rightarrow> (int \<rightharpoonup> 'ru) \<Rightarrow> (int \<rightharpoonup> 'rc) \<Rightarrow> 'rm update list
    \<Rightarrow> error + 'm list" where
  "parse_new_messages M users chats [] = Inr []"
| "parse_new_messages M users chats (i # rest) =
     (case new_message_of i of
        None \<Rightarrow> parse_new_messages M users chats rest
      | Some message \<Rightarrow>
          and_then (Message_parse M message users chats) (\<lambda>m.
          and_then (parse_new_messages M users chats rest) (\<lambda>ms. Inr (m # ms))))"

text \<open>Lines 102-118: the list \<open>forwarded_messages\<close>.\<close>

definition forwarded_messages ::
  "('rm, 'ru, 'rc, 'm) message_parsers \<Rightarrow> ('rm, 'ru, 'rc) updates_response \<Rightarrow> error + 'm list" where
  "forwarded_messages M r =
     (let users = dict_by_id (raw_user_id M) (r_users r);
          chats = dict_by_id (raw_chat_id M) (r_chats r)
      in parse_new_messages M users chats (r_updates r))"

text \<open>
  \<open>forward_messages\<close> from the response on (lines 86 and 102-120); \<open>forwarded_messages[0]\<close>
  on the empty list raises \<open>IndexError\<close>.
\<close>

definition forward_messages ::
  "('rm, 'ru, 'rc, 'm) message_parsers \<Rightarrow> message_ids \<Rightarrow> ('rm, 'ru, 'rc) updates_response
    \<Rightarrow> error + 'm forwarded" where
  "forward_messages M ids r =
     (let is_iterable = (case ids of Scalar _ \<Rightarrow> False | Iterable _ \<Rightarrow> True) in
      and_then (forwarded_messages M r) (\<lambda>fwd.
        if is_iterable then Inr (Many fwd)
        else (case fwd of [] \<Rightarrow> Inl IndexError | m # _ \<Rightarrow> Inr (Single m))))"


section \<open>get_chat_photos (methods/users/get_chat_photos.py)\<close>

text \<open>\<open>types.Photo\<close>; \<open>file_id\<close> is the identity the merge rule compares.\<close>

record photo =
  file_id :: string
  file_unique_id :: string
  file_size :: int
  photo_date :: int

text \<open>
  \<open>types.Message\<close> as the search returns it: of its fields the function reads
  \<open>new_chat_photo\<close>, which is a photo or \<open>None\<close>.
\<close>

record message =
  message_id :: int
  new_chat_photo :: "photo option"

text \<open>The resolved peer \<open>peer_id\<close> (\<open>raw.base.InputPeer\<close>).\<close>

datatype input_peer =
    InputPeerSelf
  | InputPeerUser int
  | InputPeerChat int
  | InputPeerChannel int

text \<open>
  The collaborators of the function, as parameters: \<open>GetFullChannel\<close> gives
  \<open>r.full_chat.chat_photo\<close> of the answer to line 59; \<open>Search\<close> gives the parsed
  messages of lines 63-80 for a peer and the \<open>limit\<close> sent; \<open>GetUserPhotos\<close> gives
  \<open>r.photos\<close> of the answer to lines 102-106 for a peer, an \<open>offset\<close> and a \<open>limit\<close>;
  \<open>Photo_parse\<close> is \<open>types.Photo._parse\<close>, a photo or \<open>None\<close>.
\<close>

record 'rp client =
  GetFullChannel :: "input_peer \<Rightarrow> 'rp"
  Search :: "input_peer \<Rightarrow> int \<Rightarrow> message list"
  GetUserPhotos :: "input_peer \<Rightarrow> int \<Rightarrow> int \<Rightarrow> 'rp list"
  Photo_parse :: "'rp \<Rightarrow> photo option"

subsection \<open>Channel target\<close>

text \<open>
  Lines 61-88: the list \<open>photos\<close>. \<open>current\<close> is the parsed current photo, \<open>None\<close> when
  \<open>Photo._parse\<close> gave nothing (the \<open>or []\<close> of line 61 is as false as \<open>None\<close>); \<open>r\<close> is
  the list of messages found. The elements are what the generator will yield: photos,
  or \<open>None\<close> for a message without \<open>new_chat_photo\<close>. Reading \<open>file_id\<close> of such a first
  element raises \<open>AttributeError\<close>.
\<close>

definition channel_photos :: "photo option \<Rightarrow> message list \<Rightarrow> error + photo option list" where
  "channel_photos current r =
     (let extra = map new_chat_photo r in
      case extra of
        first # _ \<Rightarrow>
          (case current of
             Some c \<Rightarrow>
               (case first of
                  None \<Rightarrow> Inl AttributeError
                | Some e \<Rightarrow> Inr (if file_id c \<noteq> file_id e then Some c # extra else extra))
           | None \<Rightarrow> Inr extra)
      | [] \<Rightarrow> Inr (case current of Some c \<Rightarrow> [Some c] | None \<Rightarrow> []))"

text \<open>
  Lines 90-94: the loop over \<open>enumerate(photos, start=1)\<close>, from the counter \<open>current\<close>
  on; the result is the sequence of values yielded.
\<close>

fun yield_enumerated :: "int \<Rightarrow> int \<Rightarrow> 'a list \<Rightarrow> 'a list" where
  "yield_enumerated limit current [] = []"
| "yield_enumerated limit current (p # rest) =
     p # (if current \<ge> limit then [] else yield_enumerated limit (current + 1) rest)"

subsection \<open>Any other target\<close>

text \<open>
  Lines 115-121: the loop over one page. It gives the values yielded, the counter
  \<open>current\<close> afterwards, and whether the generator returned inside the page.
\<close>

fun yield_page :: "int \<Rightarrow> int \<Rightarrow> 'a list \<Rightarrow> 'a list \<times> int \<times> bool" where
  "yield_page total' current [] = ([], current, False)"
| "yield_page total' current (p # rest) =
     (if current + 1 \<ge> total' then ([p], current + 1, True)
      else (case yield_page total' (current + 1) rest of
              (ys, current', returned) \<Rightarrow> (p # ys, current', returned)))"

text \<open>
  Lines 101-121: the \<open>while True\<close> loop. The result is the log of the requests sent,
  each an \<open>(offset, limit)\<close> pair, and the sequence of values yielded.
\<close>

function user_photos_loop ::
  "'rp client \<Rightarrow> input_peer \<Rightarrow> int \<Rightarrow> int \<Rightarrow> int \<Rightarrow> int
    \<Rightarrow> (int \<times> int) list \<times> photo option list" where
  "user_photos_loop C peer_id total' limit offset current =
     (let photos = map (Photo_parse C) (GetUserPhotos C peer_id offset limit) in
      if photos = [] then ([(offset, limit)], [])
      else
        (case yield_page total' current photos of
           (ys, current', returned) \<Rightarrow>
             if returned then ([(offset, limit)], ys)
             else
               (case user_photos_loop C peer_id total' limit
                       (offset + int (length photos)) current' of
                  (requests, zs) \<Rightarrow> ((offset, limit) # requests, ys @ zs))))"
  by pat_completeness auto
termination
proof (relation "measure (\<lambda>(C, peer_id, total', limit, offset, current). nat (total' - current))",
    goal_cases)
  case 1
  show ?case by simp
next
  case (2 C peer_id total' limit offset current photos ys y current' returned)
  have page: "yield_page t c ps = (zs, c', False) \<Longrightarrow> ps \<noteq> [] \<Longrightarrow> c < c' \<and> c' < t"
    for t c c' :: int and ps zs :: "photo option list"
  proof (induction ps arbitrary: c zs)
    case Nil
    then show ?case by simp
  next
    case (Cons p ps)
    show ?case
    proof (cases ps)
      case Nil
      with Cons.prems show ?thesis by (auto split: if_splits)
    next
      case (Cons q qs)
      with Cons.prems Cons.IH [of "c + 1"] show ?thesis
        by (auto split: if_splits prod.splits)
    qed
  qed
  from 2 have "yield_page total' current photos = (ys, current', False)"
    by (cases y) auto
  from page [OF this \<open>photos \<noteq> []\<close>] show ?case
    by simp
qed

declare user_photos_loop.simps [simp del]

text \<open>Lines 96-99 and the loop: the branch for a target that is not a channel.\<close>

definition user_photos ::
  "'rp client \<Rightarrow> input_peer \<Rightarrow> int \<Rightarrow> (int \<times> int) list \<times> photo option list" where
  "user_photos C peer_id limit =
     (let current = 0;
          total' = (if limit \<noteq> 0 then limit else 2 ^ 31);
          limit = min 100 total';
          offset = 0
      in user_photos_loop C peer_id total' limit offset current)"

subsection \<open>The generator\<close>

text \<open>
  \<open>get_chat_photos\<close> after \<open>resolve_peer\<close>, drained to its end: the sequence of values
  yielded, or the exception that ended it before the first of them.
\<close>

definition get_chat_photos ::
  "'rp client \<Rightarrow> input_peer \<Rightarrow> int \<Rightarrow> error + photo option list" where
  "get_chat_photos C peer_id limit =
     (case peer_id of
        InputPeerChannel _ \<Rightarrow>
          (let current = Photo_parse C (GetFullChannel C peer_id);
               r = Search C peer_id limit
           in and_then (channel_photos current r) (\<lambda>photos.
                Inr (yield_enumerated limit 1 photos)))
      | _ \<Rightarrow> Inr (snd (user_photos C peer_id limit)))"


section \<open>Fixtures\<close>

text \<open>
  Stand-ins for the parsers of other modules, on strings as raw users and chats: each
  marks what it was given.
\<close>

definition fixture_parsers :: "(string, string, nat, string, string, int, bool, nat) parsers" where
  "fixture_parsers =
     \<lparr>User_parse = (\<lambda>ru. ''User '' @ ru), Chat_parse_chat = (\<lambda>rc. ''Chat '' @ rc),
      timestamp_to_datetime = (\<lambda>ts. ts), ChatPermissions_parse = (\<lambda>br. \<not> view_messages br),
      ChatPrivileges_parse = (\<lambda>ar. ar)\<rparr>"

text \<open>
  Stand-ins for \<open>Message._parse\<close> and the \<open>id\<close> attributes, on raw messages that are
  strings and raw users and chats that are pairs of an id and a name.
\<close>

definition fixture_message_parsers :: "(string, int \<times> string, int \<times> string, string) message_parsers" where
  "fixture_message_parsers =
     \<lparr>raw_user_id = fst, raw_chat_id = fst,
      Message_parse = (\<lambda>raw users chats. Inr (''Message '' @ raw))\<rparr>"

text \<open>A photo with a given file id, and a chat-photo-change message that carries one.\<close>

definition photo_of :: "string \<Rightarrow> photo" where
  "photo_of fid = \<lparr>file_id = fid, file_unique_id = fid, file_size = 0, photo_date = 0\<rparr>"

definition photo_message :: "int \<Rightarrow> string \<Rightarrow> message" where
  "photo_message n fid = \<lparr>message_id = n, new_chat_photo = Some (photo_of fid)\<rparr>"

text \<open>
  A gateway over fixed data: the raw photo of a channel is the parsed photo itself or
  \<open>None\<close>, the search finds the same messages whatever the limit, and the user-photos
  call serves a backing store of photos honestly, \<open>limit\<close> photos from \<open>offset\<close> on.
\<close>

definition fixture_client :: "photo option \<Rightarrow> message list \<Rightarrow> photo list \<Rightarrow> photo option client" where
  "fixture_client current found store =
     \<lparr>GetFullChannel = (\<lambda>peer. current),
      Search = (\<lambda>peer limit. found),
      GetUserPhotos = (\<lambda>peer offset limit. take (nat limit) (drop (nat offset) (map Some store))),
      Photo_parse = (\<lambda>rp. rp)\<rparr>"

text \<open>A backing store of \<open>n\<close> photos, told apart by their dates.\<close>

definition photo_store :: "nat \<Rightarrow> photo list" where
  "photo_store n = map (\<lambda>k. (photo_of ''p'')\<lparr>photo_date := int k\<rparr>) [0..<n]"


section \<open>Properties of ChatMember._parse\<close>

subsection \<open>Subscripts and sequencing\<close>

lemma subscript_Some [simp]: "d k = Some v \<Longrightarrow> subscript d k = Inr v"
  by (simp add: subscript_def)

lemma subscript_None [simp]: "d k = None \<Longrightarrow> subscript d k = Inl (KeyError k)"
  by (simp add: subscript_def)

lemma subscript_Inr_iff: "subscript d k = Inr v \<longleftrightarrow> d k = Some v"
  by (simp add: subscript_def split: option.splits)

lemma and_then_Inr_iff: "and_then m f = Inr r \<longleftrightarrow> (\<exists>v. m = Inr v \<and> f v = Inr r)"
  by (cases m) (simp_all add: and_then_def)

lemma and_then_Inr [simp]: "and_then (Inr v) f = f v"
  by (simp add: and_then_def)

lemma and_then_Inl [simp]: "and_then (Inl e) f = Inl e"
  by (simp add: and_then_def)

lemma parse_subject_Inr_iff:
  "parse_subject P peer users chats = Inr (su, sc) \<longleftrightarrow>
     (case peer of
        PeerUser i \<Rightarrow> (\<exists>ru. users i = Some ru \<and> su = Some (User_parse P ru)) \<and> sc = None
      | PeerChat i \<Rightarrow> su = None \<and> (\<exists>rc. chats i = Some rc \<and> sc = Some (Chat_parse_chat P rc))
      | PeerChannel i \<Rightarrow> su = None \<and> (\<exists>rc. chats i = Some rc \<and> sc = Some (Chat_parse_chat P rc)))"
  by (cases peer) (auto simp: parse_subject_def and_then_Inr_iff subscript_Inr_iff)

subsection \<open>Banned and restricted members\<close>

text \<open>
  C6. For a \<open>ChannelParticipantBanned\<close> record the parser gives the status \<open>BANNED\<close> if
  the banned rights forbid viewing messages and \<open>RESTRICTED\<close> otherwise, and
  \<open>is_member\<close> is the negation of \<open>left\<close>. Whenever the parser returns, it returns such
  a member; and it does return when the subject of the record and \<open>kicked_by\<close> are in
  the side-loaded tables.
\<close>

theorem ChannelBanned_status:
  "(ChatMember_parse P (ChannelParticipantBanned left peer kicked_by date banned_rights)
        users chats = Inr r
     \<longrightarrow> (\<exists>m. r = Some m
            \<and> status m = (if view_messages banned_rights then BANNED else RESTRICTED)
            \<and> is_member m = Some (\<not> left)))
   \<and> ((case peer of PeerUser i \<Rightarrow> i \<in> dom users | PeerChat i \<Rightarrow> i \<in> dom chats
         | PeerChannel i \<Rightarrow> i \<in> dom chats) \<and> kicked_by \<in> dom users
     \<longrightarrow> (\<exists>m. ChatMember_parse P
               (ChannelParticipantBanned left peer kicked_by date banned_rights) users chats
             = Inr (Some m)))"
proof (intro conjI impI)
  assume "ChatMember_parse P (ChannelParticipantBanned left peer kicked_by date banned_rights)
            users chats = Inr r"
  then show "\<exists>m. r = Some m
      \<and> status m = (if view_messages banned_rights then BANNED else RESTRICTED)
      \<and> is_member m = Some (\<not> left)"
    by (auto simp: and_then_Inr_iff ChatMember_init_def split: prod.splits)
next
  assume "(case peer of PeerUser i \<Rightarrow> i \<in> dom users | PeerChat i \<Rightarrow> i \<in> dom chats
            | PeerChannel i \<Rightarrow> i \<in> dom chats) \<and> kicked_by \<in> dom users"
  then show "\<exists>m. ChatMember_parse P
      (ChannelParticipantBanned left peer kicked_by date banned_rights) users chats
      = Inr (Some m)"
    by (cases peer) (auto simp: parse_subject_def)
qed

text \<open>Both branches on literal records: a banned user, a restricted channel.\<close>

theorem ChannelBanned_status_witness:
  "(\<exists>m. ChatMember_parse fixture_parsers
           (ChannelParticipantBanned False (PeerUser 7) 1 1700000000
              \<lparr>view_messages = True, other_rights = [], rights_until_date = 0\<rparr>)
           [7 \<mapsto> ''seven'', 1 \<mapsto> ''admin''] Map.empty = Inr (Some m)
        \<and> status m = BANNED \<and> is_member m = Some True)
   \<and> (\<exists>m. ChatMember_parse fixture_parsers
           (ChannelParticipantBanned True (PeerChannel 9) 1 1700000000
              \<lparr>view_messages = False, other_rights = [True], rights_until_date = 1800000000\<rparr>)
           [1 \<mapsto> ''admin''] [9 \<mapsto> ''nine''] = Inr (Some m)
        \<and> status m = RESTRICTED \<and> is_member m = Some False)"
  using
    ChannelBanned_status [of fixture_parsers False "PeerUser 7" 1 1700000000
      "\<lparr>view_messages = True, other_rights = [], rights_until_date = 0\<rparr>"
      "[7 \<mapsto> ''seven'', 1 \<mapsto> ''admin'']" Map.empty]
    ChannelBanned_status [of fixture_parsers True "PeerChannel 9" 1 1700000000
      "\<lparr>view_messages = False, other_rights = [True], rights_until_date = 1800000000\<rparr>"
      "[1 \<mapsto> ''admin'']" "[9 \<mapsto> ''nine'']"]
  by (simp add: parse_subject_def ChatMember_init_def)

subsection \<open>The subject of a banned or left record\<close>

text \<open>
  C7. For a \<open>ChannelParticipantBanned\<close> and a \<open>ChannelParticipantLeft\<close> record the
  parser branches on the kind of the peer: for a user peer \<open>user\<close> is the parsed entry
  of the users table and \<open>chat\<close> is absent; for a chat or channel peer \<open>chat\<close> is the
  parsed entry of the chats table and \<open>user\<close> is absent; never are both present. The
  parser returns when the subject (and, for a banned record, \<open>kicked_by\<close>) is in the
  tables.
\<close>

theorem subject_user_or_chat:
  assumes "member = ChannelParticipantBanned left peer kicked_by date banned_rights
           \<or> member = ChannelParticipantLeft peer"
  shows "(ChatMember_parse P member users chats = Inr r
     \<longrightarrow> (\<exists>m. r = Some m \<and> (user m = None \<or> chat m = None)
            \<and> (case peer of
                 PeerUser i \<Rightarrow>
                   (\<exists>ru. users i = Some ru \<and> user m = Some (User_parse P ru)) \<and> chat m = None
               | PeerChat i \<Rightarrow>
                   user m = None \<and> (\<exists>rc. chats i = Some rc \<and> chat m = Some (Chat_parse_chat P rc))
               | PeerChannel i \<Rightarrow>
                   user m = None \<and> (\<exists>rc. chats i = Some rc \<and> chat m = Some (Chat_parse_chat P rc)))))
   \<and> ((case peer of PeerUser i \<Rightarrow> i \<in> dom users | PeerChat i \<Rightarrow> i \<in> dom chats
         | PeerChannel i \<Rightarrow> i \<in> dom chats)
       \<and> (member = ChannelParticipantLeft peer \<or> kicked_by \<in> dom users)
     \<longrightarrow> (\<exists>m. ChatMember_parse P member users chats = Inr (Some m)))"
proof (intro conjI impI)
  assume ret: "ChatMember_parse P member users chats = Inr r"
  from assms ret obtain su sc m where
    sub: "parse_subject P peer users chats = Inr (su, sc)" and
    r: "r = Some m" and m: "user m = su" "chat m = sc"
    by (auto simp: and_then_Inr_iff ChatMember_init_def split: prod.splits)
  from sub m r show "\<exists>m. r = Some m \<and> (user m = None \<or> chat m = None)
      \<and> (case peer of
           PeerUser i \<Rightarrow>
             (\<exists>ru. users i = Some ru \<and> user m = Some (User_parse P ru)) \<and> chat m = None
         | PeerChat i \<Rightarrow>
             user m = None \<and> (\<exists>rc. chats i = Some rc \<and> chat m = Some (Chat_parse_chat P rc))
         | PeerChannel i \<Rightarrow>
             user m = None \<and> (\<exists>rc. chats i = Some rc \<and> chat m = Some (Chat_parse_chat P rc)))"
    by (cases peer) (auto simp: parse_subject_Inr_iff)
next
  assume "(case peer of PeerUser i \<Rightarrow> i \<in> dom users | PeerChat i \<Rightarrow> i \<in> dom chats
            | PeerChannel i \<Rightarrow> i \<in> dom chats)
          \<and> (member = ChannelParticipantLeft peer \<or> kicked_by \<in> dom users)"
  with assms show "\<exists>m. ChatMember_parse P member users chats = Inr (Some m)"
    by (cases peer) (auto simp: parse_subject_def)
qed

text \<open>
  A banned user and a left channel; each id is in both tables, and only the table of
  the peer's kind is read.
\<close>

theorem subject_user_or_chat_witness:
  "(\<exists>m. ChatMember_parse fixture_parsers
           (ChannelParticipantBanned False (PeerUser 7) 1 1700000000
              \<lparr>view_messages = True, other_rights = [], rights_until_date = 0\<rparr>)
           [7 \<mapsto> ''seven'', 1 \<mapsto> ''admin''] [7 \<mapsto> ''a chat''] = Inr (Some m)
        \<and> user m = Some ''User seven'' \<and> chat m = None)
   \<and> (\<exists>m. ChatMember_parse fixture_parsers (ChannelParticipantLeft (PeerChannel 9))
           [9 \<mapsto> ''a user''] [9 \<mapsto> ''nine''] = Inr (Some m)
        \<and> user m = None \<and> chat m = Some ''Chat nine'')"
  using
    subject_user_or_chat [of
      "ChannelParticipantBanned False (PeerUser 7) 1 1700000000
         \<lparr>view_messages = True, other_rights = [], rights_until_date = 0\<rparr>"
      False "PeerUser 7" 1 1700000000
      "\<lparr>view_messages = True, other_rights = [], rights_until_date = 0\<rparr>"
      fixture_parsers "[7 \<mapsto> ''seven'', 1 \<mapsto> ''admin'']" "[7 \<mapsto> ''a chat'']"]
    subject_user_or_chat [of "ChannelParticipantLeft (PeerChannel 9)"
      False "PeerChannel 9" 0 0
      "\<lparr>view_messages = False, other_rights = [], rights_until_date = 0\<rparr>"
      fixture_parsers "[9 \<mapsto> ''a user'']" "[9 \<mapsto> ''nine'']"]
  by (simp add: parse_subject_def ChatMember_init_def fixture_parsers_def)

subsection \<open>The inviter of a channel administrator\<close>

text \<open>
  C8. For a \<open>ChannelParticipantAdmin\<close> record whose \<open>inviter_id\<close> is absent or zero,
  \<open>invited_by\<close> is absent and the users table is not consulted for it: the parser
  returns as soon as \<open>user_id\<close> and \<open>promoted_by\<close> are in the table, and its result
  does not depend on any other entry of the table. \<open>invited_by\<close> is present only for a
  nonzero \<open>inviter_id\<close>, and is then the parsed entry of the users table.
\<close>

theorem ChannelAdmin_invited_by:
  "((inviter_id = None \<or> inviter_id = Some 0)
      \<and> users user_id = Some ru \<and> users promoted = Some rp
     \<longrightarrow> (\<exists>m. ChatMember_parse P
               (ChannelParticipantAdmin can_edit user_id inviter_id promoted date admin_rights rank)
               users chats = Inr (Some m)
            \<and> invited_by m = None))
   \<and> ((inviter_id = None \<or> inviter_id = Some 0) \<and> k \<noteq> user_id \<and> k \<noteq> promoted
     \<longrightarrow> ChatMember_parse P
           (ChannelParticipantAdmin can_edit user_id inviter_id promoted date admin_rights rank)
           (users(k := x)) chats
         = ChatMember_parse P
           (ChannelParticipantAdmin can_edit user_id inviter_id promoted date admin_rights rank)
           users chats)
   \<and> (ChatMember_parse P
         (ChannelParticipantAdmin can_edit user_id inviter_id promoted date admin_rights rank)
         users chats = Inr r
     \<longrightarrow> (\<exists>m. r = Some m
            \<and> (invited_by m \<noteq> None \<longleftrightarrow> (\<exists>i. inviter_id = Some i \<and> i \<noteq> 0))
            \<and> (\<forall>i. inviter_id = Some i \<and> i \<noteq> 0
                 \<longrightarrow> invited_by m = map_option (User_parse P) (users i))))"
proof (intro conjI impI)
  assume "(inviter_id = None \<or> inviter_id = Some 0)
            \<and> users user_id = Some ru \<and> users promoted = Some rp"
  then show "\<exists>m. ChatMember_parse P
      (ChannelParticipantAdmin can_edit user_id inviter_id promoted date admin_rights rank)
      users chats = Inr (Some m) \<and> invited_by m = None"
    by (auto simp: ChatMember_init_def)
next
  assume "(inviter_id = None \<or> inviter_id = Some 0) \<and> k \<noteq> user_id \<and> k \<noteq> promoted"
  then show "ChatMember_parse P
      (ChannelParticipantAdmin can_edit user_id inviter_id promoted date admin_rights rank)
      (users(k := x)) chats
    = ChatMember_parse P
      (ChannelParticipantAdmin can_edit user_id inviter_id promoted date admin_rights rank)
      users chats"
    by (auto simp: subscript_def)
next
  assume "ChatMember_parse P
      (ChannelParticipantAdmin can_edit user_id inviter_id promoted date admin_rights rank)
      users chats = Inr r"
  then show "\<exists>m. r = Some m
      \<and> (invited_by m \<noteq> None \<longleftrightarrow> (\<exists>i. inviter_id = Some i \<and> i \<noteq> 0))
      \<and> (\<forall>i. inviter_id = Some i \<and> i \<noteq> 0
           \<longrightarrow> invited_by m = map_option (User_parse P) (users i))"
    by (cases inviter_id)
       (auto simp: and_then_Inr_iff subscript_Inr_iff ChatMember_init_def split: if_splits)
qed

text \<open>
  Inviter id zero with no entry for zero in the table; a nonzero inviter; and an
  entry for zero added to the table without effect.
\<close>

theorem ChannelAdmin_invited_by_witness:
  "(\<exists>m. ChatMember_parse fixture_parsers
           (ChannelParticipantAdmin True 5 (Some 0) 6 1700000000 3 (Some ''mod''))
           [5 \<mapsto> ''five'', 6 \<mapsto> ''six''] Map.empty = Inr (Some m)
        \<and> invited_by m = None)
   \<and> (\<exists>m. ChatMember_parse fixture_parsers
           (ChannelParticipantAdmin True 5 (Some 8) 6 1700000000 3 None)
           [5 \<mapsto> ''five'', 6 \<mapsto> ''six'', 8 \<mapsto> ''eight''] Map.empty = Inr (Some m)
        \<and> invited_by m = Some ''User eight'')
   \<and> ChatMember_parse fixture_parsers
        (ChannelParticipantAdmin True 5 None 6 1700000000 3 None)
        ([5 \<mapsto> ''five'', 6 \<mapsto> ''six''](0 := Some ''zero'')) Map.empty
      = ChatMember_parse fixture_parsers
        (ChannelParticipantAdmin True 5 None 6 1700000000 3 None)
        [5 \<mapsto> ''five'', 6 \<mapsto> ''six''] Map.empty"
  using
    ChannelAdmin_invited_by [of "Some 0" "[5 \<mapsto> ''five'', 6 \<mapsto> ''six'']" 5 "''five''" 6
      "''six''" fixture_parsers True 1700000000 3 "Some ''mod''" Map.empty 0 None]
    ChannelAdmin_invited_by [of "Some 8" "[5 \<mapsto> ''five'', 6 \<mapsto> ''six'', 8 \<mapsto> ''eight'']"
      5 "''five''" 6 "''six''" fixture_parsers True 1700000000 3 None Map.empty 0 None]
    ChannelAdmin_invited_by [of None "[5 \<mapsto> ''five'', 6 \<mapsto> ''six'']" 5 "''five''" 6
      "''six''" fixture_parsers True 1700000000 3 None Map.empty 0 "Some ''zero''"]
  by (simp add: ChatMember_init_def fixture_parsers_def)

subsection \<open>Unrecognized records\<close>

text \<open>
  C9. For a record that is none of the nine known variants the parser returns \<open>None\<close>
  and raises nothing, whatever the tables hold; and it returns \<open>None\<close> for no other
  record.
\<close>

theorem unrecognized_variant_no_result:
  "ChatMember_parse P member users chats = Inr None \<longleftrightarrow> (\<exists>name. member = OtherParticipant name)"
  by (cases member)
     (auto simp: and_then_Inr_iff ChatMember_init_def split: prod.splits)

text \<open>A constructor the parser does not know, with empty tables.\<close>

theorem unrecognized_variant_no_result_witness:
  "ChatMember_parse fixture_parsers (OtherParticipant ''channelParticipantFuture'')
     Map.empty Map.empty = Inr None"
  using unrecognized_variant_no_result [of fixture_parsers
    "OtherParticipant ''channelParticipantFuture''" Map.empty Map.empty]
  by simp


section \<open>Properties of forward_messages\<close>

subsection \<open>The comprehension over the updates\<close>

lemma parse_new_messages_none:
  "\<forall>i \<in> set us. new_message_of i = None \<Longrightarrow> parse_new_messages M users chats us = Inr []"
  by (induction us) auto

lemma parse_new_messages_ok:
  "\<forall>i \<in> set us. \<forall>raw. new_message_of i = Some raw \<longrightarrow> Message_parse M raw users chats = Inr (f raw)
   \<Longrightarrow> parse_new_messages M users chats us
       = Inr (map (\<lambda>i. f (the (new_message_of i))) (filter (\<lambda>i. new_message_of i \<noteq> None) us))"
  by (induction us) (auto split: option.splits)

lemma parse_new_messages_Inr:
  "parse_new_messages M users chats us = Inr ms
   \<Longrightarrow> list_all2 (\<lambda>m i. Message_parse M (the (new_message_of i)) users chats = Inr m)
         ms (filter (\<lambda>i. new_message_of i \<noteq> None) us)"
  by (induction us arbitrary: ms) (auto simp: and_then_Inr_iff split: option.splits)

text \<open>
  C4. For every response the function keeps exactly the updates that are new-message,
  new-channel-message or new-scheduled-message updates and returns their parsed
  messages in the order of the update list: whenever the call with an iterable
  returns, its list matches the kept updates one by one, in order; and it does return
  that list when each kept message parses.
\<close>

theorem kept_updates_in_order:
  "((\<forall>i \<in> set (r_updates r). \<forall>raw. new_message_of i = Some raw
        \<longrightarrow> Message_parse M raw (dict_by_id (raw_user_id M) (r_users r))
              (dict_by_id (raw_chat_id M) (r_chats r)) = Inr (f raw))
     \<longrightarrow> forward_messages M (Iterable ids) r
         = Inr (Many (map (\<lambda>i. f (the (new_message_of i)))
                        (filter (\<lambda>i. new_message_of i \<noteq> None) (r_updates r)))))
   \<and> (forward_messages M (Iterable ids) r = Inr res
     \<longrightarrow> (\<exists>ms. res = Many ms
            \<and> list_all2
                (\<lambda>m i. Message_parse M (the (new_message_of i))
                         (dict_by_id (raw_user_id M) (r_users r))
                         (dict_by_id (raw_chat_id M) (r_chats r)) = Inr m)
                ms (filter (\<lambda>i. new_message_of i \<noteq> None) (r_updates r))))
   \<and> (new_message_of i \<noteq> None
     \<longleftrightarrow> (\<exists>raw. i = UpdateNewMessage raw \<or> i = UpdateNewChannelMessage raw
                \<or> i = UpdateNewScheduledMessage raw))"
proof (intro conjI impI)
  assume "\<forall>i \<in> set (r_updates r). \<forall>raw. new_message_of i = Some raw
        \<longrightarrow> Message_parse M raw (dict_by_id (raw_user_id M) (r_users r))
              (dict_by_id (raw_chat_id M) (r_chats r)) = Inr (f raw)"
  from parse_new_messages_ok [OF this]
  show "forward_messages M (Iterable ids) r
      = Inr (Many (map (\<lambda>i. f (the (new_message_of i)))
                     (filter (\<lambda>i. new_message_of i \<noteq> None) (r_updates r))))"
    by (simp add: forward_messages_def forwarded_messages_def)
next
  assume "forward_messages M (Iterable ids) r = Inr res"
  then obtain ms where ms: "res = Many ms"
    "parse_new_messages M (dict_by_id (raw_user_id M) (r_users r))
       (dict_by_id (raw_chat_id M) (r_chats r)) (r_updates r) = Inr ms"
    by (auto simp: forward_messages_def forwarded_messages_def and_then_Inr_iff)
  from ms(1) parse_new_messages_Inr [OF ms(2)]
  show "\<exists>ms. res = Many ms
      \<and> list_all2
          (\<lambda>m i. Message_parse M (the (new_message_of i))
                   (dict_by_id (raw_user_id M) (r_users r))
                   (dict_by_id (raw_chat_id M) (r_chats r)) = Inr m)
          ms (filter (\<lambda>i. new_message_of i \<noteq> None) (r_updates r))"
    by simp
next
  show "new_message_of i \<noteq> None
     \<longleftrightarrow> (\<exists>raw. i = UpdateNewMessage raw \<or> i = UpdateNewChannelMessage raw
                \<or> i = UpdateNewScheduledMessage raw)"
    by (cases i) auto
qed

text \<open>
  Three message ids, and a response with two new-message updates around a read-state
  update: a list of length two, in the order of the response.
\<close>

theorem kept_updates_in_order_witness:
  "forward_messages fixture_message_parsers (Iterable [1, 2, 3])
     \<lparr>r_updates = [UpdateNewMessage ''b'', UpdateReadHistoryInbox 3, UpdateNewMessage ''a''],
      r_users = [(20, ''sender'')], r_chats = [(10, ''target'')]\<rparr>
   = Inr (Many [''Message b'', ''Message a''])"
proof -
  let ?r = "\<lparr>r_updates = [UpdateNewMessage ''b'', UpdateReadHistoryInbox 3, UpdateNewMessage ''a''],
      r_users = [(20, ''sender'')], r_chats = [(10, ''target'')]\<rparr>"
  have parsed: "\<forall>i \<in> set (r_updates ?r). \<forall>raw. new_message_of i = Some raw
      \<longrightarrow> Message_parse fixture_message_parsers raw
            (dict_by_id (raw_user_id fixture_message_parsers) (r_users ?r))
            (dict_by_id (raw_chat_id fixture_message_parsers) (r_chats ?r))
          = Inr (''Message '' @ raw)"
    by (simp add: fixture_message_parsers_def)
  from kept_updates_in_order [of ?r fixture_message_parsers "\<lambda>raw. ''Message '' @ raw" "[1, 2, 3]",
      THEN conjunct1, THEN mp, OF parsed]
  show ?thesis by simp
qed

subsection \<open>One message or a list\<close>

text \<open>
  C3, as stated, fails for a single integer when no update of the response is kept:
  the call then raises \<open>IndexError\<close> and returns no message.
\<close>

theorem scalar_result_counterexample:
  "forward_messages fixture_message_parsers (Scalar 123)
     \<lparr>r_updates = [UpdateMessageID 7 99, UpdateReadHistoryInbox 3],
      r_users = [], r_chats = [(10, ''target'')]\<rparr>
   = Inl IndexError"
  by (simp add: forward_messages_def forwarded_messages_def)

text \<open>
  C3, amended. When each kept message parses: for a single integer and a response
  with at least one kept update the result is the one message of the first kept
  update; for an iterable, also one of length one, the result is a list. And no call
  with a single integer returns a list, no call with an iterable a bare message.
\<close>

theorem scalar_or_list_result:
  "((\<forall>i \<in> set (r_updates r). \<forall>raw. new_message_of i = Some raw
        \<longrightarrow> Message_parse M raw (dict_by_id (raw_user_id M) (r_users r))
              (dict_by_id (raw_chat_id M) (r_chats r)) = Inr (f raw))
     \<longrightarrow> (filter (\<lambda>i. new_message_of i \<noteq> None) (r_updates r) = k # ks
          \<longrightarrow> forward_messages M (Scalar n) r = Inr (Single (f (the (new_message_of k)))))
       \<and> (\<exists>ms. forward_messages M (Iterable ids) r = Inr (Many ms)))
   \<and> forward_messages M (Scalar n) r \<noteq> Inr (Many ms)
   \<and> forward_messages M (Iterable ids) r \<noteq> Inr (Single m)"
proof (intro conjI impI)
  assume ok: "\<forall>i \<in> set (r_updates r). \<forall>raw. new_message_of i = Some raw
        \<longrightarrow> Message_parse M raw (dict_by_id (raw_user_id M) (r_users r))
              (dict_by_id (raw_chat_id M) (r_chats r)) = Inr (f raw)"
  from parse_new_messages_ok [OF ok]
  show "\<exists>ms. forward_messages M (Iterable ids) r = Inr (Many ms)"
    by (simp add: forward_messages_def forwarded_messages_def)
  assume "filter (\<lambda>i. new_message_of i \<noteq> None) (r_updates r) = k # ks"
  with parse_new_messages_ok [OF ok]
  show "forward_messages M (Scalar n) r = Inr (Single (f (the (new_message_of k))))"
    by (simp add: forward_messages_def forwarded_messages_def)
next
  show "forward_messages M (Scalar n) r \<noteq> Inr (Many ms)"
    by (auto simp: forward_messages_def and_then_Inr_iff split: list.splits)
next
  show "forward_messages M (Iterable ids) r \<noteq> Inr (Single m)"
    by (auto simp: forward_messages_def and_then_Inr_iff)
qed

text \<open>The same response for the id \<open>123\<close> and for the one-element list \<open>[123]\<close>.\<close>

theorem scalar_or_list_result_witness:
  "forward_messages fixture_message_parsers (Scalar 123)
     \<lparr>r_updates = [UpdateMessageID 7 99, UpdateNewChannelMessage ''c''],
      r_users = [], r_chats = [(10, ''target'')]\<rparr>
   = Inr (Single ''Message c'')
   \<and> (\<exists>ms. forward_messages fixture_message_parsers (Iterable [123])
     \<lparr>r_updates = [UpdateMessageID 7 99, UpdateNewChannelMessage ''c''],
      r_users = [], r_chats = [(10, ''target'')]\<rparr>
   = Inr (Many ms))"
proof -
  let ?r = "\<lparr>r_updates = [UpdateMessageID 7 99, UpdateNewChannelMessage ''c''],
      r_users = [], r_chats = [(10, ''target'')]\<rparr>"
  have parsed: "\<forall>i \<in> set (r_updates ?r). \<forall>raw. new_message_of i = Some raw
      \<longrightarrow> Message_parse fixture_message_parsers raw
            (dict_by_id (raw_user_id fixture_message_parsers) (r_users ?r))
            (dict_by_id (raw_chat_id fixture_message_parsers) (r_chats ?r))
          = Inr (''Message '' @ raw)"
    by (simp add: fixture_message_parsers_def)
  have kept: "filter (\<lambda>i. new_message_of i \<noteq> None) (r_updates ?r)
      = UpdateNewChannelMessage ''c'' # []"
    by simp
  from scalar_or_list_result [of ?r fixture_message_parsers "\<lambda>raw. ''Message '' @ raw"
      "UpdateNewChannelMessage ''c''" "[]" 123 "[123]",
      THEN conjunct1, THEN mp, OF parsed] kept
  show ?thesis by simp
qed

text \<open>
  C10. For a single integer and a response without any update of the three
  new-message kinds the call fails with \<open>IndexError\<close> on the empty list; so a call
  with a single integer that returns had at least one such update in its response.
\<close>

theorem scalar_without_new_message_fails:
  "((\<forall>i \<in> set (r_updates r). new_message_of i = None)
      \<longrightarrow> forward_messages M (Scalar n) r = Inl IndexError)
   \<and> (forward_messages M (Scalar n) r = Inr res
      \<longrightarrow> (\<exists>i \<in> set (r_updates r). new_message_of i \<noteq> None))"
proof -
  have a: "(\<forall>i \<in> set (r_updates r). new_message_of i = None)
      \<longrightarrow> forward_messages M (Scalar n) r = Inl IndexError"
    by (auto simp: forward_messages_def forwarded_messages_def parse_new_messages_none)
  then have "forward_messages M (Scalar n) r = Inr res
      \<longrightarrow> (\<exists>i \<in> set (r_updates r). new_message_of i \<noteq> None)"
    by auto
  with a show ?thesis by simp
qed

theorem scalar_without_new_message_fails_witness:
  "forward_messages fixture_message_parsers (Scalar 5)
     \<lparr>r_updates = [UpdateReadHistoryInbox 3, OtherUpdate ''updateEditMessage''],
      r_users = [(20, ''sender'')], r_chats = []\<rparr> = Inl IndexError"
  using scalar_without_new_message_fails [of
    "\<lparr>r_updates = [UpdateReadHistoryInbox 3, OtherUpdate ''updateEditMessage''],
      r_users = [(20, ''sender'')], r_chats = []\<rparr>" fixture_message_parsers 5]
  by simp


section \<open>Properties of get_chat_photos\<close>

subsection \<open>The two inner loops in closed form\<close>

lemma yield_enumerated_take:
  "yield_enumerated limit c ps = take (nat (max 1 (limit - c + 1))) ps"
proof (induction ps arbitrary: c)
  case Nil
  show ?case by simp
next
  case (Cons p ps)
  show ?case
  proof (cases "c \<ge> limit")
    case True
    then have "nat (max 1 (limit - c + 1)) = Suc 0" by simp
    with True show ?thesis by simp
  next
    case False
    then have "nat (max 1 (limit - c + 1)) = Suc (nat (max 1 (limit - (c + 1) + 1)))" by simp
    with False Cons.IH [of "c + 1"] show ?thesis by simp
  qed
qed

lemma yield_page_closed:
  "c < t \<Longrightarrow> yield_page t c ps
     = (take (nat (t - c)) ps, c + min (int (length ps)) (t - c), int (length ps) \<ge> t - c)"
proof (induction ps arbitrary: c)
  case Nil
  then show ?case by simp
next
  case (Cons p ps)
  show ?case
  proof (cases "c + 1 \<ge> t")
    case True
    with Cons.prems have "t - c = 1" by simp
    with True show ?thesis by simp
  next
    case False
    then have "nat (t - c) = Suc (nat (t - (c + 1)))" by simp
    with False Cons.IH [of "c + 1"] show ?thesis by auto
  qed
qed

lemma user_photos_loop_round:
  assumes "current < total'"
  shows "user_photos_loop C peer_id total' limit offset current =
     (let page = GetUserPhotos C peer_id offset limit; n = int (length page) in
      if n = 0 then ([(offset, limit)], [])
      else if current + n \<ge> total'
        then ([(offset, limit)], map (Photo_parse C) (take (nat (total' - current)) page))
        else (case user_photos_loop C peer_id total' limit (offset + n) (current + n) of
               (requests, zs) \<Rightarrow> ((offset, limit) # requests, map (Photo_parse C) page @ zs)))"
proof -
  let ?photos = "map (Photo_parse C) (GetUserPhotos C peer_id offset limit)"
  have "yield_page total' current ?photos
      = (take (nat (total' - current)) ?photos,
         current + min (int (length ?photos)) (total' - current),
         int (length ?photos) \<ge> total' - current)"
    using assms by (rule yield_page_closed)
  then show ?thesis
    by (subst user_photos_loop.simps) (auto simp: Let_def take_map min_def)
qed

subsection \<open>Channel target\<close>

text \<open>
  C1. With the default \<open>limit = 0\<close> the generator should yield every photo of a
  channel. On a channel with the current photo X and the found photos Y and Z the
  merged sequence is X, Y, Z, and the generator yields X alone: the test
  \<open>current >= limit\<close> of line 93 holds after the first photo.
\<close>

theorem channel_limit_zero_yields_one:
  "channel_photos (Some (photo_of ''X'')) [photo_message 8 ''Y'', photo_message 5 ''Z'']
     = Inr [Some (photo_of ''X''), Some (photo_of ''Y''), Some (photo_of ''Z'')]
   \<and> get_chat_photos
       (fixture_client (Some (photo_of ''X''))
          [photo_message 8 ''Y'', photo_message 5 ''Z''] [])
       (InputPeerChannel 1) 0
     = Inr [Some (photo_of ''X'')]"
  by (simp add: get_chat_photos_def channel_photos_def fixture_client_def photo_message_def
      photo_of_def)

text \<open>
  C2. The sequence of a channel: the current photo before the found ones when its
  file id differs from that of the newest found photo; the found photos alone when
  the file ids agree, and when there is no current photo; with nothing found, the
  current photo alone, or nothing. For a positive limit the generator yields that
  sequence cut at \<open>limit\<close>.
\<close>

theorem channel_merge_rule:
  "(new_chat_photo m = Some e \<and> file_id c \<noteq> file_id e
      \<longrightarrow> channel_photos (Some c) (m # ms) = Inr (Some c # map new_chat_photo (m # ms)))
   \<and> (new_chat_photo m = Some e \<and> file_id c = file_id e
      \<longrightarrow> channel_photos (Some c) (m # ms) = Inr (map new_chat_photo (m # ms)))
   \<and> channel_photos None (m # ms) = Inr (map new_chat_photo (m # ms))
   \<and> channel_photos (Some c) [] = Inr [Some c]
   \<and> channel_photos None [] = Inr []
   \<and> (0 < limit
      \<longrightarrow> get_chat_photos C (InputPeerChannel i) limit
          = and_then
              (channel_photos (Photo_parse C (GetFullChannel C (InputPeerChannel i)))
                 (Search C (InputPeerChannel i) limit))
              (\<lambda>photos. Inr (take (nat limit) photos)))"
proof (intro conjI impI)
  assume "0 < limit"
  then have "nat (max 1 (limit - 1 + 1)) = nat limit" by simp
  then show "get_chat_photos C (InputPeerChannel i) limit
      = and_then
          (channel_photos (Photo_parse C (GetFullChannel C (InputPeerChannel i)))
             (Search C (InputPeerChannel i) limit))
          (\<lambda>photos. Inr (take (nat limit) photos))"
    by (simp add: get_chat_photos_def yield_enumerated_take Let_def)
qed (simp_all add: channel_photos_def)

text \<open>
  X before Y and Z; X found again as the newest photo, and not doubled; and the
  latter cut at two.
\<close>

theorem channel_merge_rule_witness:
  "channel_photos (Some (photo_of ''X'')) [photo_message 8 ''Y'', photo_message 5 ''Z'']
     = Inr [Some (photo_of ''X''), Some (photo_of ''Y''), Some (photo_of ''Z'')]
   \<and> channel_photos (Some (photo_of ''X''))
       [photo_message 9 ''X'', photo_message 8 ''Y'', photo_message 5 ''Z'']
     = Inr [Some (photo_of ''X''), Some (photo_of ''Y''), Some (photo_of ''Z'')]
   \<and> get_chat_photos
       (fixture_client (Some (photo_of ''X''))
          [photo_message 9 ''X'', photo_message 8 ''Y'', photo_message 5 ''Z''] [])
       (InputPeerChannel 1) 2
     = Inr [Some (photo_of ''X''), Some (photo_of ''Y'')]"
  using
    channel_merge_rule [of "photo_message 8 ''Y''" "photo_of ''Y''" "photo_of ''X''"
      "[photo_message 5 ''Z'']" 2
      "fixture_client (Some (photo_of ''X''))
         [photo_message 9 ''X'', photo_message 8 ''Y'', photo_message 5 ''Z''] []" 1]
    channel_merge_rule [of "photo_message 9 ''X''" "photo_of ''X''" "photo_of ''X''"
      "[photo_message 8 ''Y'', photo_message 5 ''Z'']" 2
      "fixture_client (Some (photo_of ''X''))
         [photo_message 9 ''X'', photo_message 8 ''Y'', photo_message 5 ''Z''] []" 1]
  by (simp add: photo_message_def photo_of_def fixture_client_def)

subsection \<open>Any other target\<close>

lemma user_photos_loop_requests:
  "fst (user_photos_loop C peer_id total' limit offset current) \<noteq> []
   \<and> hd (fst (user_photos_loop C peer_id total' limit offset current)) = (offset, limit)
   \<and> (\<forall>req \<in> set (fst (user_photos_loop C peer_id total' limit offset current)). snd req = limit)"
proof (induction C peer_id total' limit offset current rule: user_photos_loop.induct)
  case (1 C peer_id total' limit offset current)
  show ?case
    apply (subst (1 2 3) user_photos_loop.simps)
    using 1
    apply (auto simp: Let_def split: prod.splits)
    done
qed

lemma user_photos_loop_store:
  assumes "0 < limit"
  shows "current < total' \<Longrightarrow>
    snd (user_photos_loop (fixture_client cur found store) peer_id total' limit (int k) current)
      = map Some (take (nat (total' - current)) (drop k store))"
proof (induction "nat (total' - current)" arbitrary: k current rule: less_induct)
  case less
  define C where "C = fixture_client cur found store"
  define d where "d = drop k store"
  define page where "page = take (nat limit) d"
  define n where "n = length page"
  define want where "want = nat (total' - current)"
  have gateway: "GetUserPhotos C peer_id (int k) limit = map Some page"
    by (simp add: C_def fixture_client_def page_def d_def take_map drop_map)
  have parse: "Photo_parse C = id"
    by (simp add: C_def fixture_client_def id_def)
  have round: "user_photos_loop C peer_id total' limit (int k) current =
     (if n = 0 then ([(int k, limit)], [])
      else if current + int n \<ge> total' then ([(int k, limit)], map Some (take want page))
      else (case user_photos_loop C peer_id total' limit (int (k + n)) (current + int n) of
             (requests, zs) \<Rightarrow> ((int k, limit) # requests, map Some page @ zs)))"
    by (simp add: user_photos_loop_round [OF less.prems] gateway parse Let_def n_def want_def
        take_map)
  have n: "n = min (nat limit) (length d)"
    by (simp add: n_def page_def min.commute)
  have positive: "0 < nat limit"
    using assms by simp
  show ?case
  proof (cases "n = 0")
    case True
    with n positive have "d = []" by (simp add: min_def split: if_splits)
    with True round show ?thesis
      by (simp add: C_def [symmetric] d_def [symmetric])
  next
    case False
    show ?thesis
    proof (cases "current + int n \<ge> total'")
      case True
      then have "want \<le> n" by (simp add: want_def)
      with n have "take want page = take want d"
        by (simp add: page_def min_def split: if_splits)
      with True \<open>n \<noteq> 0\<close> round show ?thesis
        by (simp add: C_def [symmetric] d_def [symmetric] want_def [symmetric])
    next
      case False
      then have smaller: "nat (total' - (current + int n)) < nat (total' - current)"
        and below: "current + int n < total'"
        using \<open>n \<noteq> 0\<close> by auto
      from below have "nat (total' - (current + int n)) = want - n"
        by (simp add: want_def)
      with less.hyps [OF smaller below, of "k + n"]
      have rest: "snd (user_photos_loop C peer_id total' limit (int (k + n)) (current + int n))
          = map Some (take (want - n) (drop n d))"
        by (simp add: C_def d_def add.commute)
      have "page @ take (want - n) (drop n d) = take want d"
      proof (cases "nat limit \<le> length d")
        case True
        with n have "n = nat limit" by simp
        moreover from below have "n \<le> want" by (simp add: want_def)
        ultimately show ?thesis
          using take_add [of n "want - n" d] by (simp add: page_def)
      next
        case False
        with n have "n = length d" by simp
        moreover from below have "n \<le> want" by (simp add: want_def)
        ultimately show ?thesis
          using False by (simp add: page_def)
      qed
      then have "map Some page @ map Some (take (want - n) (drop n d)) = map Some (take want d)"
        by (simp flip: map_append)
      with False \<open>n \<noteq> 0\<close> round rest show ?thesis
        by (simp add: C_def [symmetric] d_def [symmetric] want_def [symmetric]
            split: prod.splits)
    qed
  qed
qed

lemma scenario_requests:
  assumes "length store = 250"
  shows "fst (user_photos (fixture_client cur found store) peer_id 0)
     = [(0, 100), (100, 100), (200, 100), (250, 100)]"
  using assms
  by (auto simp: user_photos_def user_photos_loop_round fixture_client_def Let_def)

lemma requests_limit_150:
  assumes "length store = 250"
  shows "fst (user_photos (fixture_client cur found store) peer_id 150) = [(0, 100), (100, 100)]"
  using assms
  by (auto simp: user_photos_def user_photos_loop_round fixture_client_def Let_def)

lemma length_photo_store: "length (photo_store n) = n"
  by (simp add: photo_store_def)

text \<open>
  C5, as stated, fails twice on a store of 250 photos: without a limit the loop sends
  four requests, not three, and with the limit 150 the second request asks for 100
  photos, not for the 50 that remain of the quota.
\<close>

theorem three_rounds_counterexample:
  "length (fst (user_photos (fixture_client None [] (photo_store 250)) (InputPeerUser 1) 0)) \<noteq> 3
   \<and> fst (user_photos (fixture_client None [] (photo_store 250)) (InputPeerUser 1) 150) ! 1
       \<noteq> (100, min 100 (150 - 100))"
  using scenario_requests [of "photo_store 250" None "[]" "InputPeerUser 1"]
    requests_limit_150 [of "photo_store 250" None "[]" "InputPeerUser 1"]
  by (simp add: length_photo_store)

text \<open>
  C5, amended. Each round requests a page of size \<open>min(100, total)\<close>, where \<open>total\<close> is
  \<open>limit\<close>, or \<open>2^31\<close> for the limit zero, the same in every round; the first offset is
  zero, and a round with a nonempty page that leaves the count below \<open>total\<close> is
  followed by a round at the offset moved on by the size of the page. The loop ends
  exactly with the round whose page is empty or brings the count to \<open>total\<close>. Over a
  backing store the photos come in the order of the store, cut at \<open>total\<close>; for 250
  photos and no limit there are four requests, at the offsets 0, 100, 200 and 250,
  and all 250 photos are yielded.
\<close>

theorem user_photos_rounds:
  "(current < total' \<longrightarrow>
      user_photos_loop C peer_id total' page_limit offset current =
       (let page = GetUserPhotos C peer_id offset page_limit; n = int (length page) in
        if n = 0 then ([(offset, page_limit)], [])
        else if current + n \<ge> total'
          then ([(offset, page_limit)], map (Photo_parse C) (take (nat (total' - current)) page))
          else (case user_photos_loop C peer_id total' page_limit (offset + n) (current + n) of
                 (requests, zs) \<Rightarrow>
                   ((offset, page_limit) # requests, map (Photo_parse C) page @ zs))))
   \<and> (\<forall>req \<in> set (fst (user_photos C peer_id limit)).
         snd req = min 100 (if limit \<noteq> 0 then limit else 2 ^ 31))
   \<and> fst (hd (fst (user_photos C peer_id limit))) = 0
   \<and> (0 \<le> limit \<longrightarrow>
        snd (user_photos (fixture_client cur found store) peer_id limit)
          = map Some (take (nat (if limit \<noteq> 0 then limit else 2 ^ 31)) store))
   \<and> (length store = 250 \<longrightarrow>
        user_photos (fixture_client cur found store) peer_id 0
          = ([(0, 100), (100, 100), (200, 100), (250, 100)], map Some store))"
proof (intro conjI impI)
  assume "current < total'"
  then show "user_photos_loop C peer_id total' page_limit offset current =
       (let page = GetUserPhotos C peer_id offset page_limit; n = int (length page) in
        if n = 0 then ([(offset, page_limit)], [])
        else if current + n \<ge> total'
          then ([(offset, page_limit)], map (Photo_parse C) (take (nat (total' - current)) page))
          else (case user_photos_loop C peer_id total' page_limit (offset + n) (current + n) of
                 (requests, zs) \<Rightarrow>
                   ((offset, page_limit) # requests, map (Photo_parse C) page @ zs)))"
    by (rule user_photos_loop_round)
next
  show "\<forall>req \<in> set (fst (user_photos C peer_id limit)).
         snd req = min 100 (if limit \<noteq> 0 then limit else 2 ^ 31)"
    using user_photos_loop_requests
      [of C peer_id "if limit \<noteq> 0 then limit else 2 ^ 31"
        "min 100 (if limit \<noteq> 0 then limit else 2 ^ 31)" 0 0]
    by (simp add: user_photos_def Let_def)
next
  show "fst (hd (fst (user_photos C peer_id limit))) = 0"
    using user_photos_loop_requests
      [of C peer_id "if limit \<noteq> 0 then limit else 2 ^ 31"
        "min 100 (if limit \<noteq> 0 then limit else 2 ^ 31)" 0 0]
    by (simp add: user_photos_def Let_def)
next
  assume "0 \<le> limit"
  then have "0 < min 100 (if limit \<noteq> 0 then limit else 2 ^ 31)"
    and "0 < (if limit \<noteq> 0 then limit else (2 ^ 31 :: int))"
    by auto
  from user_photos_loop_store [OF this, of cur found store peer_id 0]
  show "snd (user_photos (fixture_client cur found store) peer_id limit)
          = map Some (take (nat (if limit \<noteq> 0 then limit else 2 ^ 31)) store)"
    by (simp add: user_photos_def Let_def)
next
  assume len: "length store = 250"
  have "0 < min 100 (2 ^ 31 :: int)" and "(0 :: int) < 2 ^ 31"
    by simp_all
  from user_photos_loop_store [OF this, of cur found store peer_id 0] len
  have "snd (user_photos (fixture_client cur found store) peer_id 0) = map Some store"
    by (simp add: user_photos_def Let_def)
  with scenario_requests [OF len, of cur found peer_id]
  show "user_photos (fixture_client cur found store) peer_id 0
          = ([(0, 100), (100, 100), (200, 100), (250, 100)], map Some store)"
    by (simp add: prod_eq_iff)
qed

text \<open>The store of 250 photos, drained without a limit and with the limit 150.\<close>

theorem user_photos_rounds_witness:
  "length (photo_store 250) = 250
   \<and> user_photos (fixture_client None [] (photo_store 250)) (InputPeerUser 1) 0
       = ([(0, 100), (100, 100), (200, 100), (250, 100)], map Some (photo_store 250))
   \<and> (0 :: int) \<le> 150
   \<and> snd (user_photos (fixture_client None [] (photo_store 250)) (InputPeerUser 1) 150)
       = map Some (take 150 (photo_store 250))"
  using
    user_photos_rounds [of 0 1 "fixture_client None [] (photo_store 250)" "InputPeerUser 1"
      100 0 0 None "[]" "photo_store 250"]
    user_photos_rounds [of 0 1 "fixture_client None [] (photo_store 250)" "InputPeerUser 1"
      100 0 150 None "[]" "photo_store 250"]
  by (simp add: length_photo_store)

end
